theory Spec2Isabelle
  imports Main
begin

section \<open>The landing page of the rowing application\<close>

text \<open>
  The application code of the repository is one React function component,
  \<^verbatim>\<open>Home\<close> in \<^verbatim>\<open>apps/rowing/src/app/page.tsx\<close>. Its body is a single
  \<^verbatim>\<open>return\<close> of a JSX literal. This theory embeds the element tree that the
  literal denotes and proves what the page shows.
\<close>

subsection \<open>React element trees\<close>

text \<open>
  A JSX tag that starts with a lower-case letter denotes a host element named by a
  string (\<^verbatim>\<open>div\<close>, \<^verbatim>\<open>p\<close>); a capitalised tag denotes a reference to the
  component bound to that identifier, here the imports from \<^verbatim>\<open>@repo/ui/button\<close>
  and \<^verbatim>\<open>@repo/ui/card\<close>. Creating an element does not call the component: the
  reference is stored as the element's type.
\<close>

datatype etype = Host string | Component string

text \<open>
  An element has a type, its attributes in source order (every attribute of the page is
  a string literal) and its children. JSX text is a child of its own.
\<close>

datatype element =
    Element etype "(string \<times> string) list" "element list"
  | Text string

fun etype_of :: "element \<Rightarrow> etype option" where
  "etype_of (Element t ps cs) = Some t"
| "etype_of (Text s) = None"

fun props :: "element \<Rightarrow> (string \<times> string) list" where
  "props (Element t ps cs) = ps"
| "props (Text s) = []"

fun children :: "element \<Rightarrow> element list" where
  "children (Element t ps cs) = cs"
| "children (Text s) = []"

text \<open>The value of an attribute, \<open>None\<close> when the element does not carry it.\<close>

definition attribute_of :: "string \<Rightarrow> element \<Rightarrow> string option" where
  "attribute_of k e = map_of (props e) k"

text \<open>The text of an element: the text nodes below it, in document order.\<close>

fun text_of :: "element \<Rightarrow> string" where
  "text_of (Text s) = s"
| "text_of (Element t ps cs) = concat (map text_of cs)"

text \<open>Every node of a tree, the root first, in document order.\<close>

fun nodes :: "element \<Rightarrow> element list" where
  "nodes (Text s) = [Text s]"
| "nodes (Element t ps cs) = Element t ps cs # concat (map nodes cs)"

text \<open>The elements of a given type in a tree, in document order.\<close>

definition elements_of :: "etype \<Rightarrow> element \<Rightarrow> element list" where
  "elements_of t e = filter (\<lambda>x. etype_of x = Some t) (nodes e)"

subsection \<open>The component\<close>

text \<open>
  \<^verbatim>\<open>Home\<close> is declared with an empty parameter list and its body names no
  identifier besides the imported components: no hook, no fetch, no module variable.
  A JavaScript function ignores the arguments it has no parameter for, and the
  framework calls a page component with a properties object, so the embedding takes
  the caller's arguments as a value of any type and does not look at them.

  JSX drops the line breaks and indentation around tags and joins the lines of a text
  with one space, which gives the paragraph below.
\<close>

definition Home :: "'args \<Rightarrow> element" where
  "Home args =
    Element (Host ''div'')
      [(''className'', ''min-h-screen flex items-center justify-center p-8'')]
      [Element (Component ''Card'') [(''className'', ''w-full max-w-md'')]
        [Element (Component ''CardHeader'') []
          [Element (Component ''CardTitle'') [(''className'', ''text-2xl'')]
            [Text ''Welcome to Rowing'']],
         Element (Component ''CardContent'') [(''className'', ''space-y-4'')]
          [Element (Host ''p'') [(''className'', ''text-muted-foreground'')]
            [Text ''Track your rowing activities and compete with others in single and multiplayer sessions.''],
           Element (Host ''div'') [(''className'', ''flex gap-4'')]
            [Element (Component ''Button'') [] [Text ''Get Started''],
             Element (Component ''Button'') [(''variant'', ''outline'')]
              [Text ''Learn More'']]]]]"

text \<open>What the page shows of a button: its label and its variant.\<close>

definition button_view :: "element \<Rightarrow> string \<times> string option" where
  "button_view b = (text_of b, attribute_of ''variant'' b)"

text \<open>The types that the page's tree is built from, named as in the source.\<close>

definition Card :: etype where "Card = Component ''Card''"
definition CardHeader :: etype where "CardHeader = Component ''CardHeader''"
definition CardTitle :: etype where "CardTitle = Component ''CardTitle''"
definition CardContent :: etype where "CardContent = Component ''CardContent''"
definition Button :: etype where "Button = Component ''Button''"

section \<open>The component as it is written\<close>

text \<open>
  The tree above is what the body of \<^verbatim>\<open>Home\<close> denotes. To say what the body
  does not do (read an argument or a variable, call a hook, fetch data), the function
  is also given as it is written, in the fragment of TSX that a synchronous function
  component is made of, with the meaning of that fragment: a call of the function
  receives the caller's arguments and the world outside the component, and returns a
  value together with the world it leaves behind.
\<close>

subsection \<open>Syntax\<close>

text \<open>
  An expression is a string literal, an identifier that is read, a call of a named
  function, the text between two tags (after the white-space rule of JSX) or a JSX
  element. The value of an attribute is an expression: a string literal for
  \<^verbatim>\<open>name="text"\<close>, any other expression for \<^verbatim>\<open>name={e}\<close>. A child that is
  neither text nor an element stands for \<^verbatim>\<open>{e}\<close>.
\<close>

datatype expr =
    Str string
  | Ident string
  | Call string "expr list"
  | JsxText string
  | JsxElement string "(string \<times> expr) list" "expr list"

datatype stmt = Const string expr | Expr expr | Return expr

record func =
  fn_name :: string
  fn_params :: "string list"
  fn_body :: "stmt list"

subsection \<open>Values, errors and the world outside\<close>

text \<open>
  A value is a string, an element, a reference to an imported binding, nothing
  (\<^verbatim>\<open>undefined\<close>) or some other value that the model does not look into
  (an object, a number, a function), told apart by a number.
\<close>

datatype jsval = VStr string | VElem element | VImport string | VOpaque nat | VUndefined

text \<open>
  Reading an identifier that nothing binds raises a \<^verbatim>\<open>ReferenceError\<close>. The
  element trees of this theory hold string attributes and element or text children
  only; an expression that would put another value there is outside the fragment and
  is refused, so that no result is ever claimed for it.
\<close>

datatype error = ReferenceError string | Unsupported

text \<open>
  The surroundings of a component: what each function it may call returns and does to
  the world (a hook such as \<^verbatim>\<open>useState\<close>, \<^verbatim>\<open>fetch\<close>, a database client, a
  session operation), and the global variables it may read. The world \<open>'w\<close> is
  whatever lies outside the component: hook state, the network, a store.
\<close>

record 'w host =
  host_call :: "string \<Rightarrow> jsval list \<Rightarrow> 'w \<Rightarrow> jsval \<times> 'w"
  host_global :: "string \<Rightarrow> 'w \<Rightarrow> jsval option"

subsection \<open>Meaning\<close>

text \<open>
  A tag that starts with a lower-case letter is a host element. Any other tag is an
  identifier: an imported binding gives a component reference, an identifier bound
  to a parameter or a local constant is outside the fragment, and an unbound one is
  an error.
\<close>

definition is_host_tag :: "string \<Rightarrow> bool" where
  "is_host_tag tag = (case tag of [] \<Rightarrow> False | c # cs \<Rightarrow> c \<in> set ''abcdefghijklmnopqrstuvwxyz'')"

definition tag_type :: "string list \<Rightarrow> (string \<times> jsval) list \<Rightarrow> string \<Rightarrow> error + etype" where
  "tag_type imps loc tag =
    (if is_host_tag tag then Inr (Host tag)
     else (case map_of loc tag of
             Some v \<Rightarrow> Inl Unsupported
           | None \<Rightarrow>
              (if tag \<in> set imps then Inr (Component tag) else Inl (ReferenceError tag))))"

fun attribute_value :: "jsval \<Rightarrow> string option" where
  "attribute_value (VStr s) = Some s"
| "attribute_value v = None"

fun child_of :: "jsval \<Rightarrow> element option" where
  "child_of (VStr s) = Some (Text s)"
| "child_of (VElem el) = Some el"
| "child_of v = None"

text \<open>
  Evaluation, in the order of \<^verbatim>\<open>createElement\<close>: the type, the attributes
  from left to right, the children from left to right. An identifier is looked up
  among the parameters and local constants, then among the imports, then among the
  globals. The world is threaded through every step.
\<close>

fun eval :: "'w host \<Rightarrow> string list \<Rightarrow> (string \<times> jsval) list \<Rightarrow> expr \<Rightarrow> 'w \<Rightarrow> error + jsval \<times> 'w"
and eval_args :: "'w host \<Rightarrow> string list \<Rightarrow> (string \<times> jsval) list \<Rightarrow> expr list \<Rightarrow> 'w \<Rightarrow> error + jsval list \<times> 'w"
and eval_attrs :: "'w host \<Rightarrow> string list \<Rightarrow> (string \<times> jsval) list \<Rightarrow> (string \<times> expr) list \<Rightarrow> 'w \<Rightarrow> error + (string \<times> string) list \<times> 'w"
and eval_children :: "'w host \<Rightarrow> string list \<Rightarrow> (string \<times> jsval) list \<Rightarrow> expr list \<Rightarrow> 'w \<Rightarrow> error + element list \<times> 'w"
where
  "eval h imps loc (Str s) w = Inr (VStr s, w)"
| "eval h imps loc (JsxText s) w = Inr (VStr s, w)"
| "eval h imps loc (Ident x) w =
    (case map_of loc x of
       Some v \<Rightarrow> Inr (v, w)
     | None \<Rightarrow>
        if x \<in> set imps then Inr (VImport x, w)
        else (case host_global h x w of
                Some v \<Rightarrow> Inr (v, w)
              | None \<Rightarrow> Inl (ReferenceError x)))"
| "eval h imps loc (Call f es) w =
    (case eval_args h imps loc es w of
       Inl err \<Rightarrow> Inl err
     | Inr (vs, w') \<Rightarrow> Inr (host_call h f vs w'))"
| "eval h imps loc (JsxElement tag as ks) w =
    (case tag_type imps loc tag of
       Inl err \<Rightarrow> Inl err
     | Inr t \<Rightarrow>
        (case eval_attrs h imps loc as w of
           Inl err \<Rightarrow> Inl err
         | Inr (ps, w') \<Rightarrow>
            (case eval_children h imps loc ks w' of
               Inl err \<Rightarrow> Inl err
             | Inr (cs, w'') \<Rightarrow> Inr (VElem (Element t ps cs), w''))))"
| "eval_args h imps loc [] w = Inr ([], w)"
| "eval_args h imps loc (e # es) w =
    (case eval h imps loc e w of
       Inl err \<Rightarrow> Inl err
     | Inr (v, w') \<Rightarrow>
        (case eval_args h imps loc es w' of
           Inl err \<Rightarrow> Inl err
         | Inr (vs, w'') \<Rightarrow> Inr (v # vs, w'')))"
| "eval_attrs h imps loc [] w = Inr ([], w)"
| "eval_attrs h imps loc ((k, e) # as) w =
    (case eval h imps loc e w of
       Inl err \<Rightarrow> Inl err
     | Inr (v, w') \<Rightarrow>
        (case attribute_value v of
           None \<Rightarrow> Inl Unsupported
         | Some s \<Rightarrow>
            (case eval_attrs h imps loc as w' of
               Inl err \<Rightarrow> Inl err
             | Inr (ps, w'') \<Rightarrow> Inr ((k, s) # ps, w''))))"
| "eval_children h imps loc [] w = Inr ([], w)"
| "eval_children h imps loc (e # es) w =
    (case eval h imps loc e w of
       Inl err \<Rightarrow> Inl err
     | Inr (v, w') \<Rightarrow>
        (case child_of v of
           None \<Rightarrow> Inl Unsupported
         | Some c \<Rightarrow>
            (case eval_children h imps loc es w' of
               Inl err \<Rightarrow> Inl err
             | Inr (cs, w'') \<Rightarrow> Inr (c # cs, w''))))"

text \<open>
  A call binds the parameters to the arguments in order; a parameter without an
  argument is \<^verbatim>\<open>undefined\<close> and an argument without a parameter is dropped.
  The body runs until its first \<^verbatim>\<open>return\<close>; a body that ends without one
  returns \<^verbatim>\<open>undefined\<close>.
\<close>

fun bind :: "string list \<Rightarrow> jsval list \<Rightarrow> (string \<times> jsval) list" where
  "bind [] vs = []"
| "bind (p # ps) [] = (p, VUndefined) # bind ps []"
| "bind (p # ps) (v # vs) = (p, v) # bind ps vs"

fun exec :: "'w host \<Rightarrow> string list \<Rightarrow> (string \<times> jsval) list \<Rightarrow> stmt list \<Rightarrow> 'w \<Rightarrow> error + jsval \<times> 'w" where
  "exec h imps loc [] w = Inr (VUndefined, w)"
| "exec h imps loc (Return e # ss) w = eval h imps loc e w"
| "exec h imps loc (Expr e # ss) w =
    (case eval h imps loc e w of
       Inl err \<Rightarrow> Inl err
     | Inr (v, w') \<Rightarrow> exec h imps loc ss w')"
| "exec h imps loc (Const x e # ss) w =
    (case eval h imps loc e w of
       Inl err \<Rightarrow> Inl err
     | Inr (v, w') \<Rightarrow> exec h imps ((x, v) # loc) ss w')"

definition call_func :: "'w host \<Rightarrow> string list \<Rightarrow> func \<Rightarrow> jsval list \<Rightarrow> 'w \<Rightarrow> error + jsval \<times> 'w" where
  "call_func h imps f args w = exec h imps (bind (fn_params f) args) (fn_body f) w"

subsection \<open>What a body calls, reads and names\<close>

text \<open>
  The functions an expression calls, the identifiers it reads as values and the tags
  of its elements, each in source order.
\<close>

fun calls_of :: "expr \<Rightarrow> string list" where
  "calls_of (Str s) = []"
| "calls_of (JsxText s) = []"
| "calls_of (Ident x) = []"
| "calls_of (Call f es) = f # concat (map calls_of es)"
| "calls_of (JsxElement tag as ks) =
     concat (map (\<lambda>a. calls_of (snd a)) as) @ concat (map calls_of ks)"

fun reads_of :: "expr \<Rightarrow> string list" where
  "reads_of (Str s) = []"
| "reads_of (JsxText s) = []"
| "reads_of (Ident x) = [x]"
| "reads_of (Call f es) = concat (map reads_of es)"
| "reads_of (JsxElement tag as ks) =
     concat (map (\<lambda>a. reads_of (snd a)) as) @ concat (map reads_of ks)"

fun tags_of :: "expr \<Rightarrow> string list" where
  "tags_of (Str s) = []"
| "tags_of (JsxText s) = []"
| "tags_of (Ident x) = []"
| "tags_of (Call f es) = concat (map tags_of es)"
| "tags_of (JsxElement tag as ks) =
     tag # concat (map (\<lambda>a. tags_of (snd a)) as) @ concat (map tags_of ks)"

fun stmt_expr :: "stmt \<Rightarrow> expr" where
  "stmt_expr (Const x e) = e"
| "stmt_expr (Expr e) = e"
| "stmt_expr (Return e) = e"

definition calls_of_func :: "func \<Rightarrow> string list" where
  "calls_of_func f = concat (map (\<lambda>s. calls_of (stmt_expr s)) (fn_body f))"

definition reads_of_func :: "func \<Rightarrow> string list" where
  "reads_of_func f = concat (map (\<lambda>s. reads_of (stmt_expr s)) (fn_body f))"

definition tags_of_func :: "func \<Rightarrow> string list" where
  "tags_of_func f = concat (map (\<lambda>s. tags_of (stmt_expr s)) (fn_body f))"

subsection \<open>The file \<^verbatim>\<open>page.tsx\<close>\<close>

text \<open>
  The two import declarations of the file, each binding with the module it comes
  from. Import bindings are read-only and fixed when the module is linked, so
  within the module a name stands for the same component at every call.
\<close>

definition page_imports :: "(string \<times> string) list" where
  "page_imports =
    [(''Button'', ''@repo/ui/button''),
     (''Card'', ''@repo/ui/card''),
     (''CardContent'', ''@repo/ui/card''),
     (''CardHeader'', ''@repo/ui/card''),
     (''CardTitle'', ''@repo/ui/card'')]"

text \<open>
  The declaration \<^verbatim>\<open>export default function Home() { return (...); }\<close>: no
  parameter, and a body of one statement.
\<close>

definition Home_decl :: func where
  "Home_decl =
    \<lparr>fn_name = ''Home'',
     fn_params = [],
     fn_body =
      [Return
        (JsxElement ''div''
          [(''className'', Str ''min-h-screen flex items-center justify-center p-8'')]
          [JsxElement ''Card'' [(''className'', Str ''w-full max-w-md'')]
            [JsxElement ''CardHeader'' []
              [JsxElement ''CardTitle'' [(''className'', Str ''text-2xl'')]
                [JsxText ''Welcome to Rowing'']],
             JsxElement ''CardContent'' [(''className'', Str ''space-y-4'')]
              [JsxElement ''p'' [(''className'', Str ''text-muted-foreground'')]
                [JsxText ''Track your rowing activities and compete with others in single and multiplayer sessions.''],
               JsxElement ''div'' [(''className'', Str ''flex gap-4'')]
                [JsxElement ''Button'' [] [JsxText ''Get Started''],
                 JsxElement ''Button'' [(''variant'', Str ''outline'')]
                  [JsxText ''Learn More'']]]]])]\<rparr>"

subsection \<open>Two results that agree\<close>

text \<open>
  Two evaluations, each started in a world of its own, agree when they raise the
  same error or return the same value and each leaves its world as it found it.
\<close>

definition agree :: "'w \<Rightarrow> 'v \<Rightarrow> error + 'a \<times> 'w \<Rightarrow> error + 'a \<times> 'v \<Rightarrow> bool" where
  "agree w w' r r' =
    (case r of
       Inl err \<Rightarrow> r' = Inl err
     | Inr (v, w1) \<Rightarrow> w1 = w \<and> r' = Inr (v, w'))"

section \<open>What the page shows\<close>

text \<open>
  The repository holds no code for the live-session coordination design that its
  specification describes (sessions, telemetry events, snapshots, broadcast): the
  documentation files show only sample snippets of conventions, and the two lint
  configurations define no function. Nothing of that design is embedded here, and the
  results below are about the landing page alone.
\<close>

lemma Home_nodes:
  "map etype_of (nodes (Home args)) =
    [Some (Host ''div''), Some Card, Some CardHeader, Some CardTitle, None,
     Some CardContent, Some (Host ''p''), None, Some (Host ''div''),
     Some Button, None, Some Button, None]"
  by (simp add: Home_def Card_def CardHeader_def CardTitle_def CardContent_def Button_def)

subsection \<open>Bodies that read and call nothing\<close>

text \<open>
  An expression that reads no identifier and calls no function evaluates alike in
  any two surroundings and worlds, and changes neither world. The lists of an
  element are handled first.
\<close>

lemma agree_eval_args:
  assumes "\<And>e. e \<in> set es \<Longrightarrow> agree w w' (eval h imps loc e w) (eval h' imps loc e w')"
  shows "agree w w' (eval_args h imps loc es w) (eval_args h' imps loc es w')"
  using assms
proof (induction es)
  case Nil
  show ?case by (simp add: agree_def)
next
  case (Cons e es)
  have head: "agree w w' (eval h imps loc e w) (eval h' imps loc e w')"
    using Cons.prems by simp
  have tail: "agree w w' (eval_args h imps loc es w) (eval_args h' imps loc es w')"
    using Cons.IH Cons.prems by simp
  from head tail show ?case
    by (auto simp add: agree_def split: sum.splits prod.splits)
qed

lemma agree_eval_attrs:
  assumes "\<And>a. a \<in> set as \<Longrightarrow> agree w w' (eval h imps loc (snd a) w) (eval h' imps loc (snd a) w')"
  shows "agree w w' (eval_attrs h imps loc as w) (eval_attrs h' imps loc as w')"
  using assms
proof (induction as)
  case Nil
  show ?case by (simp add: agree_def)
next
  case (Cons a as)
  obtain k e where a: "a = (k, e)" by (cases a)
  have head: "agree w w' (eval h imps loc e w) (eval h' imps loc e w')"
    using Cons.prems [of a] a by simp
  have tail: "agree w w' (eval_attrs h imps loc as w) (eval_attrs h' imps loc as w')"
    using Cons.IH Cons.prems by simp
  from head tail show ?case unfolding a
    by (auto simp add: agree_def split: sum.splits prod.splits option.splits)
qed

lemma agree_eval_children:
  assumes "\<And>e. e \<in> set es \<Longrightarrow> agree w w' (eval h imps loc e w) (eval h' imps loc e w')"
  shows "agree w w' (eval_children h imps loc es w) (eval_children h' imps loc es w')"
  using assms
proof (induction es)
  case Nil
  show ?case by (simp add: agree_def)
next
  case (Cons e es)
  have head: "agree w w' (eval h imps loc e w) (eval h' imps loc e w')"
    using Cons.prems by simp
  have tail: "agree w w' (eval_children h imps loc es w) (eval_children h' imps loc es w')"
    using Cons.IH Cons.prems by simp
  from head tail show ?case
    by (auto simp add: agree_def split: sum.splits prod.splits option.splits)
qed

lemma literal_eval:
  "reads_of e = [] \<Longrightarrow> calls_of e = [] \<Longrightarrow>
   agree w w' (eval h imps loc e w) (eval h' imps loc e w')"
proof (induction e)
  case (Str s)
  show ?case by (simp add: agree_def)
next
  case (Ident x)
  then show ?case by simp
next
  case (Call f es)
  then show ?case by simp
next
  case (JsxText s)
  show ?case by (simp add: agree_def)
next
  case (JsxElement tag as ks)
  have attrs: "agree w w' (eval_attrs h imps loc as w) (eval_attrs h' imps loc as w')"
  proof (rule agree_eval_attrs)
    fix a assume mem: "a \<in> set as"
    have r: "reads_of (snd a) = []" using JsxElement.prems(1) mem by simp
    have c: "calls_of (snd a) = []" using JsxElement.prems(2) mem by simp
    have "snd a \<in> Basic_BNFs.snds a" by (cases a) simp
    from JsxElement.IH(1) [OF mem this r c]
    show "agree w w' (eval h imps loc (snd a) w) (eval h' imps loc (snd a) w')" .
  qed
  have kids: "agree w w' (eval_children h imps loc ks w) (eval_children h' imps loc ks w')"
  proof (rule agree_eval_children)
    fix e assume mem: "e \<in> set ks"
    have r: "reads_of e = []" using JsxElement.prems(1) mem by simp
    have c: "calls_of e = []" using JsxElement.prems(2) mem by simp
    from JsxElement.IH(2) [OF mem r c]
    show "agree w w' (eval h imps loc e w) (eval h' imps loc e w')" .
  qed
  from attrs kids show ?case
    by (auto simp add: agree_def split: sum.splits prod.splits)
qed

lemma literal_component:
  assumes "fn_params f = []" and "fn_body f = [Return e]"
    and "reads_of e = []" and "calls_of e = []"
  shows "agree w w' (call_func h imps f args w) (call_func h' imps f args' w')"
  using assms literal_eval [of e w w' h imps "[]" h']
  by (simp add: call_func_def)

text \<open>
  The written function denotes the tree of \<^verbatim>\<open>Home\<close>, in every surrounding.
\<close>

lemma Home_decl_denotes:
  "call_func h (map fst page_imports) Home_decl vs w = Inr (VElem (Home args), w)"
  by (simp add: call_func_def Home_decl_def page_imports_def Home_def tag_type_def
      is_host_tag_def)

lemma Home_decl_body:
  "\<exists>e. fn_body Home_decl = [Return e] \<and> reads_of e = [] \<and> calls_of e = []"
  by (simp add: Home_decl_def)

subsection \<open>The claims about the page\<close>

text \<open>
  Claim C9. The landing page is a placeholder. Whatever the component is called with,
  it returns one fixed element tree, written out in full below. The tree has the
  shape div, Card, CardHeader, CardTitle, CardContent, p, div, Button, Button and no
  other element. It holds one Card; inside that Card there is one title, which reads
  "Welcome to Rowing", one paragraph, which holds the descriptive sentence, and the
  buttons of the page, which are exactly two: first "Get Started" with no variant,
  then "Learn More" with the variant "outline". The text of the page is the text of
  these four and nothing else. There is no data fetching, state or session logic:
  the function as written calls no function at all (no fetch, no hook, no session
  operation) and reads no variable, and calling it returns that tree in every
  surrounding, whatever the functions and globals around it would give, and leaves
  the world outside as it was.
\<close>

theorem Home_placeholder:
  "map etype_of (nodes (Home args)) =
     [Some (Host ''div''), Some Card, Some CardHeader, Some CardTitle, None,
      Some CardContent, Some (Host ''p''), None, Some (Host ''div''),
      Some Button, None, Some Button, None]
   \<and> map (\<lambda>c. map text_of (elements_of CardTitle c)) (elements_of Card (Home args))
       = [[''Welcome to Rowing'']]
   \<and> map (\<lambda>c. map text_of (elements_of (Host ''p'') c)) (elements_of Card (Home args))
       = [[''Track your rowing activities and compete with others in single and multiplayer sessions.'']]
   \<and> map (\<lambda>c. map button_view (elements_of Button c)) (elements_of Card (Home args))
       = [[(''Get Started'', None), (''Learn More'', Some ''outline'')]]
   \<and> map button_view (elements_of Button (Home args))
       = [(''Get Started'', None), (''Learn More'', Some ''outline'')]
   \<and> text_of (Home args)
       = ''Welcome to Rowing''
         @ ''Track your rowing activities and compete with others in single and multiplayer sessions.''
         @ ''Get Started'' @ ''Learn More''
   \<and> Home args =
       Element (Host ''div'')
         [(''className'', ''min-h-screen flex items-center justify-center p-8'')]
         [Element Card [(''className'', ''w-full max-w-md'')]
           [Element CardHeader []
             [Element CardTitle [(''className'', ''text-2xl'')]
               [Text ''Welcome to Rowing'']],
            Element CardContent [(''className'', ''space-y-4'')]
             [Element (Host ''p'') [(''className'', ''text-muted-foreground'')]
               [Text ''Track your rowing activities and compete with others in single and multiplayer sessions.''],
              Element (Host ''div'') [(''className'', ''flex gap-4'')]
               [Element Button [] [Text ''Get Started''],
                Element Button [(''variant'', ''outline'')] [Text ''Learn More'']]]]]
   \<and> calls_of_func Home_decl = []
   \<and> reads_of_func Home_decl = []
   \<and> call_func h (map fst page_imports) Home_decl vs w = Inr (VElem (Home args), w)"
proof -
  have shape: "map etype_of (nodes (Home args)) =
     [Some (Host ''div''), Some Card, Some CardHeader, Some CardTitle, None,
      Some CardContent, Some (Host ''p''), None, Some (Host ''div''),
      Some Button, None, Some Button, None]"
    by (rule Home_nodes)
  have title: "map (\<lambda>c. map text_of (elements_of CardTitle c)) (elements_of Card (Home args))
       = [[''Welcome to Rowing'']]"
    by (simp add: Home_def elements_of_def Card_def CardTitle_def)
  have para: "map (\<lambda>c. map text_of (elements_of (Host ''p'') c)) (elements_of Card (Home args))
       = [[''Track your rowing activities and compete with others in single and multiplayer sessions.'']]"
    by (simp add: Home_def elements_of_def Card_def)
  have in_card: "map (\<lambda>c. map button_view (elements_of Button c)) (elements_of Card (Home args))
       = [[(''Get Started'', None), (''Learn More'', Some ''outline'')]]"
    by (simp add: Home_def elements_of_def Card_def Button_def button_view_def attribute_of_def)
  have buttons: "map button_view (elements_of Button (Home args))
       = [(''Get Started'', None), (''Learn More'', Some ''outline'')]"
    by (simp add: Home_def elements_of_def Button_def button_view_def attribute_of_def)
  have page_text: "text_of (Home args)
       = ''Welcome to Rowing''
         @ ''Track your rowing activities and compete with others in single and multiplayer sessions.''
         @ ''Get Started'' @ ''Learn More''"
    by (simp add: Home_def)
  have fixed: "Home args =
       Element (Host ''div'')
         [(''className'', ''min-h-screen flex items-center justify-center p-8'')]
         [Element Card [(''className'', ''w-full max-w-md'')]
           [Element CardHeader []
             [Element CardTitle [(''className'', ''text-2xl'')]
               [Text ''Welcome to Rowing'']],
            Element CardContent [(''className'', ''space-y-4'')]
             [Element (Host ''p'') [(''className'', ''text-muted-foreground'')]
               [Text ''Track your rowing activities and compete with others in single and multiplayer sessions.''],
              Element (Host ''div'') [(''className'', ''flex gap-4'')]
               [Element Button [] [Text ''Get Started''],
                Element Button [(''variant'', ''outline'')] [Text ''Learn More'']]]]]"
    by (simp add: Home_def Card_def CardHeader_def CardTitle_def CardContent_def Button_def)
  have no_calls: "calls_of_func Home_decl = []"
    by (simp add: calls_of_func_def Home_decl_def)
  have no_reads: "reads_of_func Home_decl = []"
    by (simp add: reads_of_func_def Home_decl_def)
  have result: "call_func h (map fst page_imports) Home_decl vs w = Inr (VElem (Home args), w)"
    by (rule Home_decl_denotes)
  from shape title para in_card buttons page_text fixed no_calls no_reads result
  show ?thesis by blast
qed

text \<open>
  Claim C10. The component is deterministic and independent of its input. It takes
  no parameters: the declaration has an empty parameter list. It reads no external
  state: its body reads no variable and calls no function, and the only names it
  refers to that are bound outside it are the tags of the five imported components.
  Any two invocations return structurally equal element trees: a call in one
  surrounding, with one list of arguments and one world, and a call in any other
  surrounding, with other arguments and another world (even of another type),
  both return the tree of \<^verbatim>\<open>Home\<close> and leave their worlds unchanged; and the
  denoted tree is the same whatever each caller passes.
\<close>

theorem Home_input_independent:
  "fn_params Home_decl = []
   \<and> reads_of_func Home_decl = []
   \<and> calls_of_func Home_decl = []
   \<and> filter (\<lambda>t. \<not> is_host_tag t) (tags_of_func Home_decl)
       = [''Card'', ''CardHeader'', ''CardTitle'', ''CardContent'', ''Button'', ''Button'']
   \<and> set (filter (\<lambda>t. \<not> is_host_tag t) (tags_of_func Home_decl)) = set (map fst page_imports)
   \<and> call_func h (map fst page_imports) Home_decl vs w = Inr (VElem (Home a), w)
   \<and> call_func h' (map fst page_imports) Home_decl vs' w' = Inr (VElem (Home a), w')
   \<and> Home (a :: 'a) = Home (b :: 'b)"
proof -
  have no_params: "fn_params Home_decl = []"
    by (simp add: Home_decl_def)
  have no_reads: "reads_of_func Home_decl = []"
    by (simp add: reads_of_func_def Home_decl_def)
  have no_calls: "calls_of_func Home_decl = []"
    by (simp add: calls_of_func_def Home_decl_def)
  have tags: "filter (\<lambda>t. \<not> is_host_tag t) (tags_of_func Home_decl)
       = [''Card'', ''CardHeader'', ''CardTitle'', ''CardContent'', ''Button'', ''Button'']"
    by (simp add: tags_of_func_def Home_decl_def is_host_tag_def)
  have imported: "set (filter (\<lambda>t. \<not> is_host_tag t) (tags_of_func Home_decl))
       = set (map fst page_imports)"
    unfolding tags by (auto simp add: page_imports_def)
  have first: "call_func h (map fst page_imports) Home_decl vs w = Inr (VElem (Home a), w)"
    by (rule Home_decl_denotes)
  obtain e where body: "fn_body Home_decl = [Return e]" "reads_of e = []" "calls_of e = []"
    using Home_decl_body by blast
  have "agree w w' (call_func h (map fst page_imports) Home_decl vs w)
          (call_func h' (map fst page_imports) Home_decl vs' w')"
    using no_params body by (rule literal_component)
  with first
  have second: "call_func h' (map fst page_imports) Home_decl vs' w' = Inr (VElem (Home a), w')"
    by (simp add: agree_def)
  have same: "Home a = Home b"
    by (simp add: Home_def)
  from no_params no_reads no_calls tags imported first second same
  show ?thesis by blast
qed

end
